theory Spec2Isabelle
  imports Main
begin

section \<open>Word scanner (renderer/spellchecker: WORD_SEPARATORS, WORD_DEFINITION, extractWord)\<close>

text \<open>
  A text is a \<open>string\<close>: one \<open>char\<close> per code unit of the JavaScript string, for the
  code units below 256. Offsets and indices are \<open>int\<close>, as the code compares them
  with \<open>0\<close> and \<open>-1\<close>.
\<close>

subsection \<open>Character classes of the two regular expressions\<close>

definition is_digit :: "char \<Rightarrow> bool" where
  \<comment> \<open>\<open>\d\<close>: the ASCII digits\<close>
  "is_digit c = (48 \<le> (of_char c :: nat) \<and> (of_char c :: nat) \<le> 57)"

definition is_word_char :: "char \<Rightarrow> bool" where
  \<comment> \<open>\<open>\w\<close>: ASCII letters, digits and the underscore\<close>
  "is_word_char c =
     (let n = (of_char c :: nat)
      in (65 \<le> n \<and> n \<le> 90) \<or> (97 \<le> n \<and> n \<le> 122) \<or> (48 \<le> n \<and> n \<le> 57) \<or> n = 95)"

definition is_space :: "char \<Rightarrow> bool" where
  \<comment> \<open>\<open>\s\<close> below 256: TAB, LF, VT, FF, CR, SPACE and NBSP\<close>
  "is_space c = ((of_char c :: nat) \<in> {9, 10, 11, 12, 13, 32, 160})"

definition is_separator :: "char \<Rightarrow> bool" where
  \<comment> \<open>the class of \<open>WORD_SEPARATORS\<close>, item by item in the order of the source;
      the three items \<open>)-=\<close> stand for the range from \<open>)\<close> (41) to \<open>=\<close> (61)\<close>
  "is_separator c =
     (let n = (of_char c :: nat)
      in c = CHR 0x60 \<or> c = CHR ''~'' \<or> c = CHR ''!'' \<or> c = CHR ''@'' \<or> c = CHR ''#''
         \<or> c = CHR ''$'' \<or> c = CHR ''%'' \<or> c = CHR ''^'' \<or> c = CHR ''&''
         \<or> c = CHR ''*'' \<or> c = CHR ''(''
         \<or> (41 \<le> n \<and> n \<le> 61)
         \<or> c = CHR ''+'' \<or> c = CHR ''['' \<or> c = CHR ''{'' \<or> c = CHR '']''
         \<or> c = CHR ''}'' \<or> c = CHR 0x5C \<or> c = CHR ''|'' \<or> c = CHR '';''
         \<or> c = CHR '':'' \<or> c = CHR 0x27 \<or> c = CHR 0x22 \<or> c = CHR '','' \<or> c = CHR ''.''
         \<or> c = CHR ''<'' \<or> c = CHR ''>'' \<or> c = CHR ''/'' \<or> c = CHR ''?''
         \<or> is_space c)"

subsection \<open>Running the two global regular expressions\<close>

text \<open>
  \<open>WORD_DEFINITION\<close> is \<open>(?:-?\d*\.\d\w*)|(?:[^...]+)\<close> with the flag \<open>g\<close>. Its
  first alternative, tried at the head of \<open>s\<close>: the greedy \<open>-?\<close> takes a minus sign when
  there is one, the greedy \<open>\d*\<close> takes every digit that follows, then a dot and a digit
  are required, then the greedy \<open>\w*\<close> takes every word character. Backtracking finds
  nothing more: giving a digit back leaves a digit where the dot must be, and giving the
  minus sign back leaves the minus sign there. The result is the length of the match.
\<close>

definition match_number :: "string \<Rightarrow> nat option" where
  "match_number s =
     (let m = (case s of [] \<Rightarrow> 0 | c # r \<Rightarrow> if c = CHR ''-'' then 1 else (0::nat));
          s1 = drop m s;
          ds = takeWhile is_digit s1;
          s2 = dropWhile is_digit s1
      in case s2 of
           d # x # r \<Rightarrow>
             if d = CHR ''.'' \<and> is_digit x
             then Some (m + length ds + 2 + length (takeWhile is_word_char r))
             else None
         | _ \<Rightarrow> None)"

text \<open>The second alternative: the longest run, of one character at least, outside the
  separator class.\<close>

definition match_run :: "string \<Rightarrow> nat option" where
  "match_run s =
     (let n = length (takeWhile (\<lambda>c. \<not> is_separator c) s)
      in if n = 0 then None else Some n)"

text \<open>
  The search tries every position from \<open>i\<close> on, the first alternative before the second;
  \<open>s\<close> is the text from position \<open>i\<close>. Neither alternative matches the empty string, so
  nothing matches at the end of the text. The result is \<open>match.index\<close> and the new
  \<open>lastIndex\<close>.
\<close>

fun WORD_DEFINITION_search :: "string \<Rightarrow> nat \<Rightarrow> (nat \<times> nat) option" where
  "WORD_DEFINITION_search [] i = None"
| "WORD_DEFINITION_search (c # cs) i =
     (case match_number (c # cs) of
        Some n \<Rightarrow> Some (i, i + n)
      | None \<Rightarrow>
          (case match_run (c # cs) of
             Some n \<Rightarrow> Some (i, i + n)
           | None \<Rightarrow> WORD_DEFINITION_search cs (Suc i)))"

definition WORD_DEFINITION_exec :: "string \<Rightarrow> nat \<Rightarrow> (nat \<times> nat) option" where
  \<comment> \<open>\<open>WORD_DEFINITION.exec(text)\<close> with \<open>lastIndex\<close> set\<close>
  "WORD_DEFINITION_exec text lastIndex =
     (if length text < lastIndex then None
      else WORD_DEFINITION_search (drop lastIndex text) lastIndex)"

fun WORD_SEPARATORS_search :: "string \<Rightarrow> nat \<Rightarrow> nat option" where
  "WORD_SEPARATORS_search [] i = None"
| "WORD_SEPARATORS_search (c # cs) i =
     (if is_separator c then Some i else WORD_SEPARATORS_search cs (Suc i))"

definition WORD_SEPARATORS_exec :: "string \<Rightarrow> nat \<Rightarrow> nat option" where
  \<comment> \<open>\<open>WORD_SEPARATORS.exec(text)\<close> with \<open>lastIndex\<close> set: the index of the match\<close>
  "WORD_SEPARATORS_exec text lastIndex =
     (if length text < lastIndex then None
      else WORD_SEPARATORS_search (drop lastIndex text) lastIndex)"

subsection \<open>String primitives\<close>

fun search_back :: "string \<Rightarrow> char \<Rightarrow> nat \<Rightarrow> int" where
  "search_back t c 0 = (if t ! 0 = c then 0 else -1)"
| "search_back t c (Suc k) = (if t ! Suc k = c then int (Suc k) else search_back t c k)"

definition lastIndexOf :: "string \<Rightarrow> char \<Rightarrow> int \<Rightarrow> int" where
  \<comment> \<open>\<open>text.lastIndexOf(c, position)\<close>: the position is clamped into \<open>0 .. length - 1\<close>,
      the result is the last index at or before it that holds \<open>c\<close>, or \<open>-1\<close>\<close>
  "lastIndexOf t c position =
     (let start = min (max position 0) (int (length t) - 1)
      in if start < 0 then -1 else search_back t c (nat start))"

definition slice_index :: "string \<Rightarrow> int \<Rightarrow> nat" where
  \<comment> \<open>how \<open>slice\<close> and \<open>substr\<close> read an index: a negative one counts from the end\<close>
  "slice_index t i =
     (if i < 0 then nat (max (int (length t) + i) 0) else min (nat i) (length t))"

definition slice :: "string \<Rightarrow> int \<Rightarrow> int \<Rightarrow> string" where
  \<comment> \<open>\<open>text.slice(from, to)\<close>\<close>
  "slice t from to = take (slice_index t to - slice_index t from) (drop (slice_index t from) t)"

definition slice_from :: "string \<Rightarrow> int \<Rightarrow> string" where
  \<comment> \<open>\<open>text.slice(from)\<close>\<close>
  "slice_from t from = drop (slice_index t from) t"

definition substr :: "string \<Rightarrow> int \<Rightarrow> int \<Rightarrow> string" where
  \<comment> \<open>\<open>text.substr(from, length)\<close>\<close>
  "substr t from len = take (nat len) (drop (slice_index t from) t)"

definition substr_from :: "string \<Rightarrow> int \<Rightarrow> string" where
  \<comment> \<open>\<open>text.substr(from)\<close>\<close>
  "substr_from t from = drop (slice_index t from) t"

subsection \<open>Bounds of a match, for the termination of the scanning loop\<close>

lemma WORD_DEFINITION_search_bounds:
  "WORD_DEFINITION_search s i = Some (idx, e) \<Longrightarrow> i \<le> idx \<and> idx < e"
proof (induction s i rule: WORD_DEFINITION_search.induct)
  case (1 i)
  then show ?case by simp
next
  case (2 c cs i)
  show ?case
  proof (cases "match_number (c # cs)")
    case (Some n)
    then have "0 < n"
      by (auto simp: match_number_def Let_def split: list.splits if_splits)
    with 2 Some show ?thesis by simp
  next
    case None
    show ?thesis
    proof (cases "match_run (c # cs)")
      case (Some n)
      then have "0 < n"
        by (auto simp: match_run_def Let_def split: if_splits)
      with 2 None Some show ?thesis by simp
    next
      case no_run: None
      with 2 None have "Suc i \<le> idx \<and> idx < e" by simp
      then show ?thesis by simp
    qed
  qed
qed

lemma WORD_DEFINITION_exec_advances:
  "WORD_DEFINITION_exec t li = Some (idx, e) \<Longrightarrow> li \<le> idx \<and> idx < e \<and> li \<le> length t"
  by (auto simp: WORD_DEFINITION_exec_def split: if_splits dest: WORD_DEFINITION_search_bounds)

lemma WORD_DEFINITION_search_end:
  "WORD_DEFINITION_search s i = Some (idx, e) \<Longrightarrow> e \<le> i + length s"
proof (induction s i rule: WORD_DEFINITION_search.induct)
  case (1 i)
  then show ?case by simp
next
  case (2 c cs i)
  show ?case
  proof (cases "match_number (c # cs)")
    case (Some n)
    define m where "m = (if c = CHR ''-'' then 1 else (0::nat))"
    define s1 where "s1 = drop m (c # cs)"
    from Some obtain d x r where s2: "dropWhile is_digit s1 = d # x # r"
      and n: "n = m + length (takeWhile is_digit s1) + 2 + length (takeWhile is_word_char r)"
      by (auto simp: match_number_def Let_def m_def s1_def split: list.splits if_splits)
    have "length (takeWhile is_digit s1) + length (dropWhile is_digit s1) = length s1"
      by (metis length_append takeWhile_dropWhile_id)
    moreover have "length (takeWhile is_word_char r) \<le> length r"
      by (rule length_takeWhile_le)
    moreover have "m + length s1 \<le> length (c # cs)"
      by (simp add: s1_def m_def)
    ultimately have "n \<le> length (c # cs)"
      using s2 n by simp
    with 2 Some show ?thesis by simp
  next
    case None
    show ?thesis
    proof (cases "match_run (c # cs)")
      case (Some n)
      then have "n \<le> length (c # cs)"
        using length_takeWhile_le [of "\<lambda>c. \<not> is_separator c" "c # cs"]
        by (auto simp: match_run_def Let_def split: if_splits)
      with 2 None Some show ?thesis by simp
    next
      case no_run: None
      with 2 None have "e \<le> Suc i + length cs" by simp
      then show ?thesis by simp
    qed
  qed
qed

lemma WORD_DEFINITION_exec_end:
  "WORD_DEFINITION_exec t li = Some (idx, e) \<Longrightarrow> e \<le> length t"
  by (auto simp: WORD_DEFINITION_exec_def split: if_splits dest: WORD_DEFINITION_search_end)

lemma WORD_DEFINITION_exec_bounds:
  "WORD_DEFINITION_exec t li = Some (idx, e) \<Longrightarrow> li \<le> idx \<and> idx < e \<and> e \<le> length t"
  using WORD_DEFINITION_exec_advances WORD_DEFINITION_exec_end by blast

subsection \<open>extractWord\<close>

record wordInfo =
  left :: int
  right :: int
  word :: string

text \<open>
  The loop \<open>while (match = WORD_DEFINITION.exec(text))\<close> of \<open>extractWord\<close>: \<open>lastIndex\<close> is
  the state of the global expression, \<open>left\<close> the local variable; the result is \<open>left\<close>
  when the loop ends, by a failed match or by \<open>break\<close>.
\<close>

function scan_words :: "string \<Rightarrow> int \<Rightarrow> nat \<Rightarrow> int \<Rightarrow> int" where
  "scan_words t offset lastIndex lft =
     (case WORD_DEFINITION_exec t lastIndex of
        None \<Rightarrow> lft
      | Some (index, lastIndex') \<Rightarrow>
          if int index \<le> offset
          then scan_words t offset lastIndex'
                 (if int lastIndex' > offset then int index else lft)
          else lft)"
  by pat_completeness auto
termination
  by (relation "measure (\<lambda>(t, offset, lastIndex, lft). Suc (length t) - lastIndex)")
     (auto dest!: WORD_DEFINITION_exec_bounds)

definition clamp_offset :: "string \<Rightarrow> int \<Rightarrow> int" where
  \<comment> \<open>the \<open>else if\<close> chain that follows the test of the empty text\<close>
  "clamp_offset t offset =
     (if offset < 0 then 0
      else if offset \<ge> int (length t) then int (length t) - 1
      else offset)"

definition extractWord :: "string \<Rightarrow> int \<Rightarrow> wordInfo option" where
  "extractWord t offset0 =
     (if t = [] then None
      else
        let offset = clamp_offset t offset0;
            lastIndex = lastIndexOf t (CHR '' '') (offset - 1) + 1;
            lft = scan_words t offset (nat lastIndex) (-1)
        in if lft \<le> -1 then None
           else
             let rgt = (case WORD_SEPARATORS_exec t (nat offset) of
                          Some index \<Rightarrow> int index
                        | None \<Rightarrow> -1)
             in if rgt < 0
                then Some \<lparr>left = lft, right = int (length t), word = slice_from t lft\<rparr>
                else Some \<lparr>left = lft, right = rgt, word = slice t lft rgt\<rparr>)"

section \<open>Cursors, blocks and the content state (muya/lib/contentState/core.js)\<close>

text \<open>
  A block of the document tree is an object that several cursors refer to, and
  \<open>replaceWordInline\<close> writes its \<open>text\<close> through such a reference: positions hold a
  reference, and the content state maps every reference to the object it designates.
  A field that may be \<open>undefined\<close> is an \<open>option\<close>.
\<close>

type_synonym block_ref = nat

record block_object =
  text' :: string
  functionType :: "string option"
  lang :: "string option"

record 'o position =
  key :: string
  offset :: 'o
  block :: "block_ref option"

record 'p cursor_range =
  start :: 'p
  end' :: 'p

text \<open>A line cursor, a word cursor and the active cursor \<open>this.cursor\<close>: two positions
  with a numeric offset each.\<close>

type_synonym lineCursor = "int position cursor_range"

text \<open>
  What \<open>validateLineCursor\<close> is handed is not known to have that shape: the selection may
  be \<open>null\<close>, either position may be missing, a position may have no own property
  \<open>offset\<close>, and the selection may carry an \<open>affiliation\<close> array, of which only the
  \<open>type\<close> of each element is read.
\<close>

record 'p selection = "'p cursor_range" +
  affiliation :: "string list option"

type_synonym raw_selection = "int option position option selection"

datatype error =
    InvalidWordCursor
    \<comment> \<open>\<open>Expect a single line word cursor: "start.key" is not equal to "end.key".\<close>\<close>
  | InvalidLineCursor
    \<comment> \<open>\<open>Expect a single line line cursor: "start.key" is not equal to "end.key".\<close>\<close>
  | InvalidOffsetOrder int int
    \<comment> \<open>\<open>Invalid word cursor offset: ${wordStart.offset} should be less ${wordEnd.offset}.\<close>\<close>
  | CursorMismatch string string
    \<comment> \<open>\<open>Cursor mismatch: Expect the same line but got ${lineStart.key} and ${wordEnd.key}.\<close>\<close>
  | OutOfBounds
    \<comment> \<open>\<open>Invalid cursor: Replacement length is larger than line length.\<close>\<close>
  | TypeError
    \<comment> \<open>thrown by the language when a property of \<open>null\<close> or \<open>undefined\<close> is read\<close>

datatype event = PartialRender | DispatchSelectionChange | DispatchChange | ConsoleWarn

text \<open>
  The content state, as far as the two methods touch it: the block objects, the active
  cursor, the lookup \<open>this.getBlock\<close> of the document tree (not in the sources at hand,
  so a parameter), and the trace of the calls made to the renderer, to \<open>muya\<close> and to the
  console.
\<close>

record contentState =
  blocks :: "block_ref \<Rightarrow> block_object"
  cursor :: lineCursor
  getBlock :: "string \<Rightarrow> block_ref option"
  events :: "event list"

subsection \<open>offsetToWordCursor\<close>

definition deepClone :: "'a \<Rightarrow> 'a" where
  \<comment> \<open>Modelled from the spec: \<open>deepClone\<close> of \<open>@/util\<close> is not in the sources at hand. The
      spec has it return a deep copy that shares nothing mutable with its argument;
      positions are values here, so the copy is the position itself.\<close>
  "deepClone x = x"

definition offsetToWordCursor :: "lineCursor \<Rightarrow> int \<Rightarrow> int \<Rightarrow> lineCursor" where
  "offsetToWordCursor lineCursor lft rgt =
     (let start0 = deepClone (start lineCursor);
          end0 = deepClone (end' lineCursor)
      in \<lparr>start = start0\<lparr>offset := lft\<rparr>, end' = end0\<lparr>offset := rgt\<rparr>\<rparr>)"

subsection \<open>validateLineCursor\<close>

text \<open>
  The first test is a conjunction of five negations joined by \<open>&&\<close>. When the selection
  is an object, \<open>!selection\<close> is false and the conjunction is false without reading
  further. When it is \<open>null\<close> or \<open>undefined\<close>, \<open>!selection\<close> is true and the second
  conjunct reads \<open>selection.start\<close>, which throws. So the test never holds.
\<close>

definition selection_range_test :: "raw_selection option \<Rightarrow> error + bool" where
  "selection_range_test sel =
     (case sel of
        Some s \<Rightarrow> Inr False
      | None \<Rightarrow> Inl TypeError)"

definition validateLineCursor ::
  "(block_ref \<Rightarrow> block_object) \<Rightarrow> raw_selection option \<Rightarrow> error + bool" where
  "validateLineCursor heap sel =
     (case selection_range_test sel of
        Inl e \<Rightarrow> Inl e
      | Inr True \<Rightarrow> Inr False
      | Inr False \<Rightarrow>
          (case sel of
             None \<Rightarrow> Inl TypeError
           | Some s \<Rightarrow>
               (case start s of
                  None \<Rightarrow> Inl TypeError
                | Some startCursor \<Rightarrow>
                    (case end' s of
                       None \<Rightarrow> Inl TypeError
                     | Some endCursor \<Rightarrow>
                         if key startCursor \<noteq> key endCursor then Inr False
                         else
                           (case block startCursor of
                              None \<Rightarrow> Inr False
                            | Some b \<Rightarrow>
                                if functionType (heap b) = Some ''codeContent''
                                   \<and> lang (heap b) \<noteq> None
                                then Inr False
                                else if (case affiliation s of
                                           None \<Rightarrow> False
                                         | Some a \<Rightarrow> length a = 1 \<and> a ! 0 = ''pre'')
                                then Inr False
                                else Inr True)))))"

subsection \<open>replaceWordInline\<close>

text \<open>
  The method mutates the block it reaches through \<open>line.start.block\<close>, the object \<open>line\<close>
  and \<open>this\<close>; the model returns the outcome, the line and the content state. A
  \<open>throw\<close> leaves the method with the line and the state as they are at that point.
\<close>

definition replaceWordInline ::
  "lineCursor \<Rightarrow> lineCursor \<Rightarrow> string \<Rightarrow> bool \<Rightarrow> contentState
     \<Rightarrow> (error + unit) \<times> lineCursor \<times> contentState" where
  "replaceWordInline line wordCursor replacement setCursor this =
     (let lineStart = start line; lineEnd = end' line;
          wordStart = start wordCursor; wordEnd = end' wordCursor
      in if key wordStart \<noteq> key wordEnd then (Inl InvalidWordCursor, line, this)
         else if key lineStart \<noteq> key lineEnd then (Inl InvalidLineCursor, line, this)
         else if offset wordStart > offset wordEnd
           then (Inl (InvalidOffsetOrder (offset wordStart) (offset wordEnd)), line, this)
         else if key lineStart \<noteq> key wordEnd
           then (Inl (CursorMismatch (key lineStart) (key wordEnd)), line, this)
         else
           (case block lineStart of
              None \<Rightarrow> (Inl TypeError, line, this)
            | Some b \<Rightarrow>
                if int (length (text' (blocks this b))) < offset wordEnd
                then (Inl OutOfBounds, line, this)
                else
                  let lft = offset wordStart;
                      rgt = offset wordEnd;
                      t = text' (blocks this b);
                      this1 = this\<lparr>blocks := (blocks this)
                                (b := (blocks this b)
                                   \<lparr>text' := substr t 0 lft @ replacement @ substr_from t rgt\<rparr>)\<rparr>;
                      c = wordStart\<lparr>offset := lft + int (length replacement)\<rparr>;
                      line2 = (if setCursor then line\<lparr>start := c, end' := c\<rparr> else line);
                      this2 = (if setCursor then this1\<lparr>cursor := \<lparr>start = c, end' = c\<rparr>\<rparr>
                               else this1)
                  in (Inr (), line2,
                      this2\<lparr>events := events this2
                                 @ [PartialRender, DispatchSelectionChange, DispatchChange]\<rparr>)))"

subsection \<open>_replaceCurrentWordInlineUnsafe\<close>

definition as_selection :: "lineCursor \<Rightarrow> raw_selection option" where
  \<comment> \<open>the object \<open>{ start, end }\<close> as \<open>validateLineCursor\<close> sees it: both positions and
      their offsets are there, an \<open>affiliation\<close> is not\<close>
  "as_selection c =
     Some \<lparr>start = Some \<lparr>key = key (start c), offset = Some (offset (start c)),
                           block = block (start c)\<rparr>,
           end' = Some \<lparr>key = key (end' c), offset = Some (offset (end' c)),
                          block = block (end' c)\<rparr>,
           affiliation = None\<rparr>"

text \<open>
  \<open>selection.getCursorRange()\<close> reads the live selection of the editing surface; it is
  not in the sources at hand, so its result is the parameter \<open>cursorRange\<close>.
\<close>

definition selected_line :: "contentState \<Rightarrow> lineCursor \<Rightarrow> lineCursor" where
  \<comment> \<open>the object \<open>cursor\<close> built from the live selection, its start position given the
      block that \<open>this.getBlock(start.key)\<close> returns\<close>
  "selected_line this cursorRange =
     \<lparr>start = (start cursorRange)\<lparr>block := getBlock this (key (start cursorRange))\<rparr>,
      end' = end' cursorRange\<rparr>"

definition replaceCurrentWordInlineUnsafe ::
  "lineCursor \<Rightarrow> string \<Rightarrow> string \<Rightarrow> contentState \<Rightarrow> (error + bool) \<times> contentState" where
  "replaceCurrentWordInlineUnsafe cursorRange oldWord replacement this =
     (let cur = selected_line this cursorRange
      in case validateLineCursor (blocks this) (as_selection cur) of
           Inl e \<Rightarrow> (Inl e, this)
         | Inr False \<Rightarrow> (Inr False, this\<lparr>events := events this @ [ConsoleWarn]\<rparr>)
         | Inr True \<Rightarrow>
             let startCursor = start cur;
                 lineOffset = offset startCursor
             in (case block startCursor of
                   None \<Rightarrow> (Inl TypeError, this)
                 | Some b \<Rightarrow>
                     (case extractWord (text' (blocks this b)) lineOffset of
                        None \<Rightarrow> (Inr False, this)
                      | Some wordInfo \<Rightarrow>
                          if word wordInfo \<noteq> oldWord
                          then (Inr False, this\<lparr>events := events this @ [ConsoleWarn]\<rparr>)
                          else
                            let wordRange = offsetToWordCursor (cursor this)
                                              (left wordInfo) (right wordInfo)
                            in (case replaceWordInline cur wordRange replacement True this of
                                  (Inl e, line', this') \<Rightarrow> (Inl e, this')
                                | (Inr u, line', this') \<Rightarrow> (Inr True, this')))))"

subsection \<open>A small document for concrete runs\<close>

text \<open>One paragraph line with the key \<open>ag-1\<close>, reached by the reference 0.\<close>

definition paragraph_block :: "string \<Rightarrow> block_object" where
  "paragraph_block t = \<lparr>text' = t, functionType = Some ''paragraphContent'', lang = None\<rparr>"

definition at_offset :: "string \<Rightarrow> int \<Rightarrow> block_ref option \<Rightarrow> int position" where
  "at_offset k off b = \<lparr>key = k, offset = off, block = b\<rparr>"

definition span_of :: "string \<Rightarrow> int \<Rightarrow> int \<Rightarrow> block_ref option \<Rightarrow> lineCursor" where
  "span_of k l r b = \<lparr>start = at_offset k l b, end' = at_offset k r b\<rparr>"

definition one_line :: "string \<Rightarrow> lineCursor \<Rightarrow> contentState" where
  "one_line t c =
     \<lparr>blocks = (\<lambda>r. paragraph_block t),
      cursor = c,
      getBlock = (\<lambda>k. if k = ''ag-1'' then Some 0 else None),
      events = []\<rparr>"

section \<open>Properties of the word scanner\<close>

subsection \<open>What the two searches return\<close>

text \<open>The range \<open>)-=\<close> of the separator class holds the ten digits, which \<open>\d\<close> and
  \<open>\w\<close> of the number token count as parts of a word.\<close>

lemma is_digit_separator: "is_digit c \<Longrightarrow> is_separator c"
  by (simp add: is_digit_def is_separator_def Let_def)

lemma is_digit_word_char: "is_digit c \<Longrightarrow> is_word_char c"
  by (simp add: is_digit_def is_word_char_def Let_def)


lemma WORD_SEPARATORS_search_Some:
  "WORD_SEPARATORS_search s i = Some r \<Longrightarrow>
     i \<le> r \<and> r < i + length s \<and> is_separator (s ! (r - i))
     \<and> (\<forall>j < r - i. \<not> is_separator (s ! j))"
proof (induction s i rule: WORD_SEPARATORS_search.induct)
  case (1 i)
  then show ?case by simp
next
  case (2 c cs i)
  show ?case
  proof (cases "is_separator c")
    case True
    with 2 show ?thesis by simp
  next
    case False
    with 2 have ih: "Suc i \<le> r \<and> r < Suc i + length cs \<and> is_separator (cs ! (r - Suc i))
      \<and> (\<forall>j < r - Suc i. \<not> is_separator (cs ! j))" by simp
    then have eq: "r - i = Suc (r - Suc i)" by arith
    have "\<forall>j < r - i. \<not> is_separator ((c # cs) ! j)"
    proof (intro allI impI)
      fix j assume "j < r - i"
      then show "\<not> is_separator ((c # cs) ! j)"
        using ih False eq by (cases j) auto
    qed
    with ih eq show ?thesis by simp
  qed
qed

lemma WORD_SEPARATORS_exec_Some:
  assumes "WORD_SEPARATORS_exec t li = Some r"
  shows "li \<le> r" and "r < length t" and "is_separator (t ! r)"
    and "\<And>j. li \<le> j \<Longrightarrow> j < r \<Longrightarrow> \<not> is_separator (t ! j)"
proof -
  from assms have le: "li \<le> length t"
    and s: "WORD_SEPARATORS_search (drop li t) li = Some r"
    by (auto simp: WORD_SEPARATORS_exec_def split: if_splits)
  note b = WORD_SEPARATORS_search_Some [OF s]
  from b show "li \<le> r" by simp
  from b le show lt: "r < length t" by simp
  from b have "is_separator (drop li t ! (r - li))" by blast
  moreover from b have "li + (r - li) = r" by simp
  ultimately show "is_separator (t ! r)" by (metis nth_drop le)
  fix j assume j: "li \<le> j" "j < r"
  then have "j - li < r - li" by arith
  with b have "\<not> is_separator (drop li t ! (j - li))" by blast
  moreover from j have "li + (j - li) = j" by simp
  ultimately show "\<not> is_separator (t ! j)" by (metis nth_drop le)
qed

lemma scan_words_result:
  "scan_words t off li l = l \<or> (0 \<le> scan_words t off li l \<and> scan_words t off li l \<le> off)"
proof (induction t off li l rule: scan_words.induct)
  case (1 t offset lastIndex lft)
  show ?case
  proof (cases "WORD_DEFINITION_exec t lastIndex")
    case None
    then show ?thesis by simp
  next
    case (Some m)
    obtain idx e where m: "m = (idx, e)" by (cases m)
    show ?thesis
    proof (cases "int idx \<le> offset")
      case True
      from "1.IH" [OF Some m [symmetric] True] Some m True
      show ?thesis by (auto split: if_splits)
    next
      case False
      with Some m show ?thesis by simp
    qed
  qed
qed


lemma clamp_offset_range:
  "t \<noteq> [] \<Longrightarrow> 0 \<le> clamp_offset t off \<and> clamp_offset t off < int (length t)"
  by (auto simp: clamp_offset_def)

lemma extractWord_span:
  assumes "extractWord t off = Some w"
  shows "0 \<le> left w" and "left w \<le> clamp_offset t off"
    and "clamp_offset t off \<le> right w" and "right w \<le> int (length t)"
    and "word w = take (nat (right w) - nat (left w)) (drop (nat (left w)) t)"
    and "\<not> is_separator (t ! nat (clamp_offset t off)) \<Longrightarrow> clamp_offset t off < right w"
proof -
  define c where "c = clamp_offset t off"
  define l where
    "l = scan_words t c (nat (lastIndexOf t (CHR '' '') (c - 1) + 1)) (-1)"
  from assms have ne: "t \<noteq> []"
    by (auto simp: extractWord_def split: if_splits)
  from clamp_offset_range [OF ne] have c: "0 \<le> c" "c < int (length t)"
    by (simp_all add: c_def)
  from assms ne have found: "\<not> l \<le> -1"
    by (auto simp: extractWord_def Let_def c_def l_def split: if_splits)
  with scan_words_result [of t c "nat (lastIndexOf t (CHR '' '') (c - 1) + 1)" "-1"]
  have l: "0 \<le> l" "l \<le> c"
    by (auto simp: l_def)
  have six: "0 \<le> left w \<and> left w \<le> c \<and> c \<le> right w \<and> right w \<le> int (length t)
    \<and> word w = take (nat (right w) - nat (left w)) (drop (nat (left w)) t)
    \<and> (\<not> is_separator (t ! nat c) \<longrightarrow> c < right w)"
  proof (cases "WORD_SEPARATORS_exec t (nat c)")
    case None
    with assms ne found have w: "w = \<lparr>left = l, right = int (length t), word = slice_from t l\<rparr>"
      by (simp add: extractWord_def Let_def c_def l_def)
    from l c have "slice_from t l = drop (nat l) t"
      by (simp add: slice_from_def slice_index_def)
    with w l c show ?thesis by simp
  next
    case (Some r)
    note r = WORD_SEPARATORS_exec_Some [OF Some]
    from Some assms ne found have w: "w = \<lparr>left = l, right = int r, word = slice t l (int r)\<rparr>"
      by (simp add: extractWord_def Let_def c_def l_def)
    from l c r(1,2) have "slice t l (int r) = take (r - nat l) (drop (nat l) t)"
      by (simp add: slice_def slice_index_def)
    moreover have "\<not> is_separator (t ! nat c) \<longrightarrow> c < int r"
    proof
      assume "\<not> is_separator (t ! nat c)"
      with r(3) have "r \<noteq> nat c" by auto
      with r(1) c show "c < int r" by simp
    qed
    ultimately show ?thesis using w l c r(1,2) by simp
  qed
  from six show "0 \<le> left w" by simp
  from six show "left w \<le> clamp_offset t off" by (simp add: c_def)
  from six show "clamp_offset t off \<le> right w" by (simp add: c_def)
  from six show "right w \<le> int (length t)" by simp
  from six show "word w = take (nat (right w) - nat (left w)) (drop (nat (left w)) t)" by simp
  from six show "\<not> is_separator (t ! nat (clamp_offset t off)) \<Longrightarrow> clamp_offset t off < right w"
    by (simp add: c_def)
qed


subsection \<open>The span that extractWord returns\<close>

text \<open>
  Claim C3, as the code has it. Whenever \<open>extractWord t off\<close> returns a span, for any
  offset, \<open>left \<le> right\<close>, both lie within the text, and \<open>word\<close> is the substring of the
  text from \<open>left\<close> to \<open>right\<close>. The word is not empty when the token found starts
  before the clamped offset, or when the character at the clamped offset is outside the
  class of \<open>WORD_SEPARATORS\<close>.
\<close>

theorem extractWord_span_ok:
  assumes "extractWord t off = Some w"
  shows "left w \<le> right w
     \<and> 0 \<le> left w \<and> right w \<le> int (length t)
     \<and> word w = take (nat (right w) - nat (left w)) (drop (nat (left w)) t)
     \<and> (left w < clamp_offset t off \<or> \<not> is_separator (t ! nat (clamp_offset t off))
          \<longrightarrow> word w \<noteq> [])"
proof -
  note s = extractWord_span [OF assms]
  from s(2,3) have lr: "left w \<le> right w" by simp
  have "word w \<noteq> []"
    if "left w < clamp_offset t off \<or> \<not> is_separator (t ! nat (clamp_offset t off))"
  proof -
    from that s(2,3,6) have "left w < right w" by auto
    with s(1,4) have "drop (nat (left w)) t \<noteq> []" and "nat (right w) - nat (left w) \<noteq> 0"
      by (simp, arith)
    then have "take (nat (right w) - nat (left w)) (drop (nat (left w)) t) \<noteq> []"
      by (metis take_eq_Nil)
    with s(5) show ?thesis by simp
  qed
  with lr s(1,4,5) show ?thesis by blast
qed

text \<open>
  Claim C3 as stated, with a word that is never empty, fails: in \<open>.5\<close> at offset 0
  the number token starts at the dot, the dot is a separator, and the word returned is
  the empty string between 0 and 0.
\<close>

theorem extractWord_empty_word_counterexample:
  "extractWord ''.5'' 0 = Some \<lparr>left = 0, right = 0, word = []\<rparr>"
  by code_simp

theorem extractWord_span_ok_witness:
  "extractWord ''teh cat'' 1 = Some \<lparr>left = 0, right = 3, word = ''teh''\<rparr>
   \<and> (0::int) \<le> 3 \<and> ''teh'' = take 3 (drop 0 ''teh cat'') \<and> ''teh'' \<noteq> []"
proof -
  have e: "extractWord ''teh cat'' 1 = Some \<lparr>left = 0, right = 3, word = ''teh''\<rparr>"
    by code_simp
  from extractWord_span_ok [OF e] e show ?thesis by simp
qed


text \<open>
  Claim C4, evaluated. In \<open>price 3.14 end\<close> at offset 8 the token found is \<open>3.14\<close>, from
  6 to 10, so \<open>left\<close> is 6; the search for the right boundary starts at offset 8, where
  the digit \<open>1\<close> lies in the range \<open>)-=\<close> of \<open>WORD_SEPARATORS\<close>, so \<open>right\<close> is 8 and the
  word is \<open>3.\<close>, not \<open>3.14\<close>.
\<close>

theorem extractWord_decimal_token:
  "is_separator (CHR ''1'')
   \<and> WORD_DEFINITION_exec ''price 3.14 end'' 6 = Some (6, 10)
   \<and> extractWord ''price 3.14 end'' 8 = Some \<lparr>left = 6, right = 8, word = ''3.''\<rparr>"
  by code_simp



section \<open>Properties of the replacement engine\<close>

subsection \<open>Facts shared by the proofs\<close>

lemmas example_defs = span_of_def at_offset_def one_line_def paragraph_block_def

lemma validateLineCursor_selected_line:
  assumes "validateLineCursor (blocks this) (as_selection (selected_line this cursorRange))
             = Inr True"
  shows "key (start cursorRange) = key (end' cursorRange)"
    and "getBlock this (key (start cursorRange)) \<noteq> None"
  using assms
  by (auto simp: validateLineCursor_def selection_range_test_def as_selection_def
        selected_line_def split: option.splits if_splits)

lemma one_line_valid:
  "validateLineCursor (blocks (one_line t c))
     (as_selection (selected_line (one_line t c) (span_of ''ag-1'' l r None))) = Inr True"
  by (simp add: validateLineCursor_def selection_range_test_def as_selection_def
        selected_line_def example_defs)

subsection \<open>replaceWordInline\<close>

text \<open>
  Claim C1. Let the line cursor and the word cursor satisfy the five checks of
  \<open>replaceWordInline\<close>: each has one key, the keys agree, the word's start offset is at
  most its end offset, and the end offset is at most the length of the text of the
  block \<open>b\<close> that the line refers to. Offsets are indices into the text, so the start
  offset is not negative. Then the call succeeds and the text of \<open>b\<close> becomes the text
  before \<open>left\<close>, the replacement, and the text from \<open>right\<close> on. When \<open>setCursor\<close> is
  true, the start and the end of the line and both ends of the active cursor become the
  word's start position with the offset \<open>left + replacement.length\<close>.
\<close>

theorem replaceWordInline_splice:
  assumes "key (start wordCursor) = key (end' wordCursor)"
    and "key (start line) = key (end' line)"
    and "offset (start wordCursor) \<le> offset (end' wordCursor)"
    and "key (start line) = key (end' wordCursor)"
    and "block (start line) = Some b"
    and "offset (end' wordCursor) \<le> int (length (text' (blocks this b)))"
    and "0 \<le> offset (start wordCursor)"
  shows
    "let t = text' (blocks this b);
         lft = offset (start wordCursor);
         rgt = offset (end' wordCursor);
         c = (start wordCursor)\<lparr>offset := lft + int (length replacement)\<rparr>
     in case replaceWordInline line wordCursor replacement setCursor this of
          (r, line', this') \<Rightarrow>
            r = Inr ()
            \<and> text' (blocks this' b) = take (nat lft) t @ replacement @ drop (nat rgt) t
            \<and> (setCursor \<longrightarrow>
                  start line' = c \<and> end' line' = c \<and> cursor this' = \<lparr>start = c, end' = c\<rparr>)"
  using assms
  by (simp add: replaceWordInline_def Let_def substr_def substr_from_def slice_index_def)

text \<open>
  On \<open>abc def\<close> with the word range from 4 to 7 and the replacement \<open>xyz\<close> the text
  becomes \<open>abc xyz\<close> and the caret is at 7.
\<close>

theorem replaceWordInline_splice_witness:
  "text' (blocks (snd (snd (replaceWordInline
       (span_of ''ag-1'' 5 5 (Some 0)) (span_of ''ag-1'' 4 7 None) ''xyz'' True
       (one_line ''abc def'' (span_of ''ag-1'' 5 5 None))))) 0)
     = ''abc xyz''
   \<and> cursor (snd (snd (replaceWordInline
       (span_of ''ag-1'' 5 5 (Some 0)) (span_of ''ag-1'' 4 7 None) ''xyz'' True
       (one_line ''abc def'' (span_of ''ag-1'' 5 5 None)))))
     = span_of ''ag-1'' 7 7 None"
  using replaceWordInline_splice
    [of "span_of ''ag-1'' 4 7 None" "span_of ''ag-1'' 5 5 (Some 0)" 0
        "one_line ''abc def'' (span_of ''ag-1'' 5 5 None)" "''xyz''" True]
  by (simp add: span_of_def at_offset_def one_line_def paragraph_block_def Let_def
        split: prod.splits)

text \<open>
  Claim C2. Each of the five checks of \<open>replaceWordInline\<close>, when it is the first to
  fail, throws the error with its own message, and the line and the content state
  (block texts, active cursor, trace of notifications) are as before the call. So every
  input that fails one of the five checks ends in one of these five errors with
  nothing changed.
\<close>

theorem replaceWordInline_rejects:
  "let ws = start wordCursor; we = end' wordCursor;
       ls = start line; le = end' line;
       R = replaceWordInline line wordCursor replacement setCursor this
   in (key ws \<noteq> key we \<longrightarrow> R = (Inl InvalidWordCursor, line, this))
    \<and> (key ws = key we \<and> key ls \<noteq> key le \<longrightarrow> R = (Inl InvalidLineCursor, line, this))
    \<and> (key ws = key we \<and> key ls = key le \<and> offset ws > offset we
          \<longrightarrow> R = (Inl (InvalidOffsetOrder (offset ws) (offset we)), line, this))
    \<and> (key ws = key we \<and> key ls = key le \<and> offset ws \<le> offset we \<and> key ls \<noteq> key we
          \<longrightarrow> R = (Inl (CursorMismatch (key ls) (key we)), line, this))
    \<and> (\<forall>b. key ws = key we \<and> key ls = key le \<and> offset ws \<le> offset we \<and> key ls = key we
             \<and> block ls = Some b \<and> int (length (text' (blocks this b))) < offset we
          \<longrightarrow> R = (Inl OutOfBounds, line, this))
    \<and> (key ws \<noteq> key we \<or> key ls \<noteq> key le \<or> offset ws > offset we \<or> key ls \<noteq> key we
          \<or> (\<exists>b. block ls = Some b \<and> int (length (text' (blocks this b))) < offset we)
          \<longrightarrow> snd R = (line, this)
              \<and> fst R \<in> {Inl InvalidWordCursor, Inl InvalidLineCursor,
                           Inl (InvalidOffsetOrder (offset ws) (offset we)),
                           Inl (CursorMismatch (key ls) (key we)), Inl OutOfBounds})"
  by (auto simp: replaceWordInline_def Let_def split: option.splits)

text \<open>
  One input for each check; the third is the inverted range from 5 to 2.
\<close>

theorem replaceWordInline_rejects_witness:
  "replaceWordInline (span_of ''ag-1'' 5 5 (Some 0))
       \<lparr>start = at_offset ''ag-1'' 4 None, end' = at_offset ''ag-2'' 7 None\<rparr> ''xyz'' True
       (one_line ''abc def'' (span_of ''ag-1'' 5 5 None))
     = (Inl InvalidWordCursor, span_of ''ag-1'' 5 5 (Some 0),
        one_line ''abc def'' (span_of ''ag-1'' 5 5 None))
   \<and> replaceWordInline
       \<lparr>start = at_offset ''ag-1'' 5 (Some 0), end' = at_offset ''ag-2'' 5 None\<rparr>
       (span_of ''ag-1'' 4 7 None) ''xyz'' True
       (one_line ''abc def'' (span_of ''ag-1'' 5 5 None))
     = (Inl InvalidLineCursor,
        \<lparr>start = at_offset ''ag-1'' 5 (Some 0), end' = at_offset ''ag-2'' 5 None\<rparr>,
        one_line ''abc def'' (span_of ''ag-1'' 5 5 None))
   \<and> replaceWordInline (span_of ''ag-1'' 5 5 (Some 0))
       (span_of ''ag-1'' 5 2 None) ''xyz'' True
       (one_line ''abc def'' (span_of ''ag-1'' 5 5 None))
     = (Inl (InvalidOffsetOrder 5 2), span_of ''ag-1'' 5 5 (Some 0),
        one_line ''abc def'' (span_of ''ag-1'' 5 5 None))
   \<and> replaceWordInline (span_of ''ag-1'' 5 5 (Some 0))
       (span_of ''ag-2'' 4 7 None) ''xyz'' True
       (one_line ''abc def'' (span_of ''ag-1'' 5 5 None))
     = (Inl (CursorMismatch ''ag-1'' ''ag-2''), span_of ''ag-1'' 5 5 (Some 0),
        one_line ''abc def'' (span_of ''ag-1'' 5 5 None))
   \<and> replaceWordInline (span_of ''ag-1'' 5 5 (Some 0))
       (span_of ''ag-1'' 4 9 None) ''xyz'' True
       (one_line ''abc def'' (span_of ''ag-1'' 5 5 None))
     = (Inl OutOfBounds, span_of ''ag-1'' 5 5 (Some 0),
        one_line ''abc def'' (span_of ''ag-1'' 5 5 None))"
proof -
  let ?S = "one_line ''abc def'' (span_of ''ag-1'' 5 5 None)"
  let ?L = "span_of ''ag-1'' 5 5 (Some 0)"
  have "replaceWordInline ?L
       \<lparr>start = at_offset ''ag-1'' 4 None, end' = at_offset ''ag-2'' 7 None\<rparr> ''xyz'' True ?S
     = (Inl InvalidWordCursor, ?L, ?S)"
    using replaceWordInline_rejects
      [of "\<lparr>start = at_offset ''ag-1'' 4 None, end' = at_offset ''ag-2'' 7 None\<rparr>"
          ?L "''xyz''" True ?S]
    by (simp add: Let_def span_of_def at_offset_def)
  moreover have "replaceWordInline
       \<lparr>start = at_offset ''ag-1'' 5 (Some 0), end' = at_offset ''ag-2'' 5 None\<rparr>
       (span_of ''ag-1'' 4 7 None) ''xyz'' True ?S
     = (Inl InvalidLineCursor,
        \<lparr>start = at_offset ''ag-1'' 5 (Some 0), end' = at_offset ''ag-2'' 5 None\<rparr>, ?S)"
    using replaceWordInline_rejects
      [of "span_of ''ag-1'' 4 7 None"
          "\<lparr>start = at_offset ''ag-1'' 5 (Some 0), end' = at_offset ''ag-2'' 5 None\<rparr>"
          "''xyz''" True ?S]
    by (simp add: Let_def span_of_def at_offset_def)
  moreover have "replaceWordInline ?L (span_of ''ag-1'' 5 2 None) ''xyz'' True ?S
     = (Inl (InvalidOffsetOrder 5 2), ?L, ?S)"
    using replaceWordInline_rejects [of "span_of ''ag-1'' 5 2 None" ?L "''xyz''" True ?S]
    by (simp add: Let_def span_of_def at_offset_def)
  moreover have "replaceWordInline ?L (span_of ''ag-2'' 4 7 None) ''xyz'' True ?S
     = (Inl (CursorMismatch ''ag-1'' ''ag-2''), ?L, ?S)"
    using replaceWordInline_rejects [of "span_of ''ag-2'' 4 7 None" ?L "''xyz''" True ?S]
    by (simp add: Let_def span_of_def at_offset_def)
  moreover have "replaceWordInline ?L (span_of ''ag-1'' 4 9 None) ''xyz'' True ?S
     = (Inl OutOfBounds, ?L, ?S)"
    using replaceWordInline_rejects [of "span_of ''ag-1'' 4 9 None" ?L "''xyz''" True ?S]
    by (simp add: Let_def example_defs)
  ultimately show ?thesis by blast
qed

text \<open>
  Claim C8. Under the checks of claim C1, replacing the range from \<open>left\<close> to \<open>right\<close>
  by the very text it holds leaves every block as it is, and with \<open>setCursor\<close> the
  caret is at \<open>left + replacement.length\<close>.
\<close>

theorem replaceWordInline_same_word:
  assumes "key (start wordCursor) = key (end' wordCursor)"
    and "key (start line) = key (end' line)"
    and "offset (start wordCursor) \<le> offset (end' wordCursor)"
    and "key (start line) = key (end' wordCursor)"
    and "block (start line) = Some b"
    and "offset (end' wordCursor) \<le> int (length (text' (blocks this b)))"
    and "0 \<le> offset (start wordCursor)"
    and "replacement =
           take (nat (offset (end' wordCursor)) - nat (offset (start wordCursor)))
             (drop (nat (offset (start wordCursor))) (text' (blocks this b)))"
  shows
    "let c = (start wordCursor)
               \<lparr>offset := offset (start wordCursor) + int (length replacement)\<rparr>
     in case replaceWordInline line wordCursor replacement setCursor this of
          (r, line', this') \<Rightarrow>
            r = Inr ()
            \<and> blocks this' = blocks this
            \<and> (setCursor \<longrightarrow>
                  start line' = c \<and> end' line' = c \<and> cursor this' = \<lparr>start = c, end' = c\<rparr>)"
proof -
  define t where "t = text' (blocks this b)"
  define l where "l = nat (offset (start wordCursor))"
  define r where "r = nat (offset (end' wordCursor))"
  from assms(3,6,7) have lr: "l \<le> r" "r \<le> length t"
    by (simp_all add: l_def r_def t_def)
  have "take l t @ take (r - l) (drop l t) @ drop r t = t"
  proof -
    have "take (r - l) (drop l t) @ drop r t = drop l t"
      using lr by (metis append_take_drop_id drop_drop le_add_diff_inverse2)
    then show ?thesis by simp
  qed
  then have same: "substr t 0 (offset (start wordCursor)) @ replacement
                   @ substr_from t (offset (end' wordCursor)) = t"
    using assms(3,6,7,8)
    by (simp add: substr_def substr_from_def slice_index_def l_def r_def t_def)
  then have "(blocks this)(b := (blocks this b)
      \<lparr>text' := substr t 0 (offset (start wordCursor)) @ replacement
                 @ substr_from t (offset (end' wordCursor))\<rparr>) = blocks this"
    by (simp add: t_def)
  with assms(1-6) show ?thesis
    by (simp add: replaceWordInline_def Let_def t_def)
qed

text \<open>
  Replacing \<open>def\<close> in \<open>abc def\<close> by \<open>def\<close>.
\<close>

theorem replaceWordInline_same_word_witness:
  "blocks (snd (snd (replaceWordInline (span_of ''ag-1'' 5 5 (Some 0))
       (span_of ''ag-1'' 4 7 None) ''def'' True
       (one_line ''abc def'' (span_of ''ag-1'' 5 5 None)))))
     = blocks (one_line ''abc def'' (span_of ''ag-1'' 5 5 None))
   \<and> cursor (snd (snd (replaceWordInline (span_of ''ag-1'' 5 5 (Some 0))
       (span_of ''ag-1'' 4 7 None) ''def'' True
       (one_line ''abc def'' (span_of ''ag-1'' 5 5 None)))))
     = span_of ''ag-1'' 7 7 None"
  using replaceWordInline_same_word
    [of "span_of ''ag-1'' 4 7 None" "span_of ''ag-1'' 5 5 (Some 0)" 0
        "one_line ''abc def'' (span_of ''ag-1'' 5 5 None)" "''def''" True]
  by (simp add: span_of_def at_offset_def one_line_def paragraph_block_def Let_def
        split: prod.splits)

subsection \<open>validateLineCursor\<close>

text \<open>
  Claim C5, evaluated. A selection that is \<open>null\<close> makes \<open>validateLineCursor\<close> throw,
  as does one without a start or without an end position; and a selection on one
  paragraph line whose positions have no \<open>offset\<close> is accepted. The first test of the
  function joins its five conditions with \<open>&&\<close>, so it never returns \<open>false\<close>.
\<close>

theorem validateLineCursor_absent_parts:
  "validateLineCursor heap None = Inl TypeError
   \<and> validateLineCursor heap (Some \<lparr>start = None, end' = q, affiliation = a\<rparr>) = Inl TypeError
   \<and> validateLineCursor heap (Some \<lparr>start = Some p, end' = None, affiliation = a\<rparr>)
       = Inl TypeError
   \<and> validateLineCursor (\<lambda>r. paragraph_block ''teh cat'')
        (Some \<lparr>start = Some \<lparr>key = ''ag-1'', offset = None, block = Some 0\<rparr>,
               end' = Some \<lparr>key = ''ag-1'', offset = None, block = None\<rparr>,
               affiliation = None\<rparr>)
       = Inr True"
  by (simp add: validateLineCursor_def selection_range_test_def paragraph_block_def)

text \<open>
  Claim C6. For a selection with both positions, \<open>validateLineCursor\<close> returns
  \<open>false\<close> when the two keys differ or the start position has no block, and when the
  block of the start position has the function type \<open>codeContent\<close> and a defined
  \<open>lang\<close>.
\<close>

theorem validateLineCursor_rejects:
  assumes "start s = Some p" and "end' s = Some q"
  shows "(key p \<noteq> key q \<or> block p = None \<longrightarrow> validateLineCursor heap (Some s) = Inr False)
     \<and> (\<forall>b. block p = Some b \<and> functionType (heap b) = Some ''codeContent''
              \<and> lang (heap b) \<noteq> None
           \<longrightarrow> validateLineCursor heap (Some s) = Inr False)"
  using assms
  by (auto simp: validateLineCursor_def selection_range_test_def split: option.splits)

text \<open>
  A selection from line \<open>ag-1\<close> to line \<open>ag-2\<close>, and a selection inside a code block
  in the language \<open>js\<close>.
\<close>

theorem validateLineCursor_rejects_witness:
  "validateLineCursor (\<lambda>r. paragraph_block ''teh cat'')
     (Some \<lparr>start = Some \<lparr>key = ''ag-1'', offset = Some 0, block = Some 0\<rparr>,
            end' = Some \<lparr>key = ''ag-2'', offset = Some 3, block = None\<rparr>,
            affiliation = None\<rparr>) = Inr False
   \<and> validateLineCursor
       (\<lambda>r. \<lparr>text' = ''teh = 1'', functionType = Some ''codeContent'', lang = Some ''js''\<rparr>)
       (Some \<lparr>start = Some \<lparr>key = ''ag-1'', offset = Some 0, block = Some 0\<rparr>,
              end' = Some \<lparr>key = ''ag-1'', offset = Some 3, block = None\<rparr>,
              affiliation = None\<rparr>) = Inr False"
proof
  show "validateLineCursor (\<lambda>r. paragraph_block ''teh cat'')
     (Some \<lparr>start = Some \<lparr>key = ''ag-1'', offset = Some 0, block = Some 0\<rparr>,
            end' = Some \<lparr>key = ''ag-2'', offset = Some 3, block = None\<rparr>,
            affiliation = None\<rparr>) = Inr False"
    using validateLineCursor_rejects
      [of "\<lparr>start = Some \<lparr>key = ''ag-1'', offset = Some 0, block = Some 0\<rparr>,
            end' = Some \<lparr>key = ''ag-2'', offset = Some 3, block = None\<rparr>,
            affiliation = None\<rparr>"
          "\<lparr>key = ''ag-1'', offset = Some 0, block = Some 0\<rparr>"
          "\<lparr>key = ''ag-2'', offset = Some 3, block = None\<rparr>"
          "\<lambda>r. paragraph_block ''teh cat''"]
    by simp
  show "validateLineCursor
       (\<lambda>r. \<lparr>text' = ''teh = 1'', functionType = Some ''codeContent'', lang = Some ''js''\<rparr>)
       (Some \<lparr>start = Some \<lparr>key = ''ag-1'', offset = Some 0, block = Some 0\<rparr>,
              end' = Some \<lparr>key = ''ag-1'', offset = Some 3, block = None\<rparr>,
              affiliation = None\<rparr>) = Inr False"
    using validateLineCursor_rejects
      [of "\<lparr>start = Some \<lparr>key = ''ag-1'', offset = Some 0, block = Some 0\<rparr>,
            end' = Some \<lparr>key = ''ag-1'', offset = Some 3, block = None\<rparr>,
            affiliation = None\<rparr>"
          "\<lparr>key = ''ag-1'', offset = Some 0, block = Some 0\<rparr>"
          "\<lparr>key = ''ag-1'', offset = Some 3, block = None\<rparr>"
          "\<lambda>r. \<lparr>text' = ''teh = 1'', functionType = Some ''codeContent'', lang = Some ''js''\<rparr>"]
    by simp
qed

subsection \<open>_replaceCurrentWordInlineUnsafe\<close>

text \<open>
  Claim C7. When the live selection passes \<open>validateLineCursor\<close> and the word that
  \<open>extractWord\<close> finds in the text of its block differs from the argument \<open>word\<close>, the
  call returns \<open>false\<close>; it has written a warning and nothing else: the block texts and
  the active cursor are as before.
\<close>

theorem replaceCurrentWordInlineUnsafe_mismatch:
  assumes "validateLineCursor (blocks this) (as_selection (selected_line this cursorRange))
             = Inr True"
    and "getBlock this (key (start cursorRange)) = Some b"
    and "extractWord (text' (blocks this b)) (offset (start cursorRange)) = Some w"
    and "word w \<noteq> oldWord"
  shows "replaceCurrentWordInlineUnsafe cursorRange oldWord replacement this
           = (Inr False, this\<lparr>events := events this @ [ConsoleWarn]\<rparr>)"
  using assms
  by (simp add: replaceCurrentWordInlineUnsafe_def Let_def selected_line_def)

text \<open>
  The buffer reads \<open>the cat\<close> by now, and the word to replace is \<open>teh\<close>.
\<close>

theorem replaceCurrentWordInlineUnsafe_mismatch_witness:
  "extractWord ''the cat'' 1 = Some \<lparr>left = 0, right = 3, word = ''the''\<rparr>
   \<and> replaceCurrentWordInlineUnsafe (span_of ''ag-1'' 1 1 None) ''teh'' ''the''
       (one_line ''the cat'' (span_of ''ag-1'' 1 1 None))
     = (Inr False,
        (one_line ''the cat'' (span_of ''ag-1'' 1 1 None))\<lparr>events := [ConsoleWarn]\<rparr>)"
proof -
  let ?S = "one_line ''the cat'' (span_of ''ag-1'' 1 1 None)"
  have e: "extractWord ''the cat'' 1 = Some \<lparr>left = 0, right = 3, word = ''the''\<rparr>"
    by code_simp
  have g: "getBlock ?S (key (start (span_of ''ag-1'' 1 1 None))) = Some 0"
    by (simp add: example_defs)
  have x: "extractWord (text' (blocks ?S 0)) (offset (start (span_of ''ag-1'' 1 1 None)))
             = Some \<lparr>left = 0, right = 3, word = ''the''\<rparr>"
    using e by (simp add: example_defs)
  have "replaceCurrentWordInlineUnsafe (span_of ''ag-1'' 1 1 None) ''teh'' ''the'' ?S
          = (Inr False, ?S\<lparr>events := events ?S @ [ConsoleWarn]\<rparr>)"
    by (rule replaceCurrentWordInlineUnsafe_mismatch [OF one_line_valid g x]) simp
  with e show ?thesis by (simp add: one_line_def)
qed

text \<open>
  Claim C10, as the code has it. The word cursor is made from \<open>this.cursor\<close>, not from
  the live selection. When the live selection passes validation, the word found equals
  the argument, \<open>this.cursor\<close> lies on one line (its two keys agree) and that line is
  not the line of the live selection, the call throws the cursor mismatch of
  \<open>replaceWordInline\<close>, with nothing changed, instead of returning \<open>false\<close>.
\<close>

theorem replaceCurrentWordInlineUnsafe_cursor_mismatch:
  assumes "validateLineCursor (blocks this) (as_selection (selected_line this cursorRange))
             = Inr True"
    and "getBlock this (key (start cursorRange)) = Some b"
    and "extractWord (text' (blocks this b)) (offset (start cursorRange)) = Some w"
    and "word w = oldWord"
    and "key (start (cursor this)) = key (end' (cursor this))"
    and "key (end' (cursor this)) \<noteq> key (start cursorRange)"
  shows "replaceCurrentWordInlineUnsafe cursorRange oldWord replacement this
           = (Inl (CursorMismatch (key (start cursorRange)) (key (end' (cursor this)))), this)"
proof -
  note v = validateLineCursor_selected_line [OF assms(1)]
  note s = extractWord_span [OF assms(3)]
  from s(2,3) have "left w \<le> right w" by simp
  with assms v(1) show ?thesis
    by (simp add: replaceCurrentWordInlineUnsafe_def Let_def selected_line_def
          offsetToWordCursor_def deepClone_def replaceWordInline_def)
qed

text \<open>
  The live selection is on line \<open>ag-1\<close>, the active cursor on line \<open>ag-2\<close>.
\<close>

theorem replaceCurrentWordInlineUnsafe_cursor_mismatch_witness:
  "replaceCurrentWordInlineUnsafe (span_of ''ag-1'' 1 1 None) ''teh'' ''the''
       (one_line ''teh cat'' (span_of ''ag-2'' 0 0 None))
     = (Inl (CursorMismatch ''ag-1'' ''ag-2''),
        one_line ''teh cat'' (span_of ''ag-2'' 0 0 None))"
proof -
  let ?S = "one_line ''teh cat'' (span_of ''ag-2'' 0 0 None)"
  have e: "extractWord ''teh cat'' 1 = Some \<lparr>left = 0, right = 3, word = ''teh''\<rparr>"
    by code_simp
  have g: "getBlock ?S (key (start (span_of ''ag-1'' 1 1 None))) = Some 0"
    by (simp add: example_defs)
  have x: "extractWord (text' (blocks ?S 0)) (offset (start (span_of ''ag-1'' 1 1 None)))
             = Some \<lparr>left = 0, right = 3, word = ''teh''\<rparr>"
    using e by (simp add: example_defs)
  have "replaceCurrentWordInlineUnsafe (span_of ''ag-1'' 1 1 None) ''teh'' ''the'' ?S
          = (Inl (CursorMismatch (key (start (span_of ''ag-1'' 1 1 None)))
                    (key (end' (cursor ?S)))), ?S)"
    by (rule replaceCurrentWordInlineUnsafe_cursor_mismatch [OF one_line_valid g x])
       (simp_all add: example_defs)
  then show ?thesis by (simp add: example_defs)
qed

text \<open>
  Claim C10 as stated, for every active cursor on another line than the live
  selection, fails: when the active cursor itself runs from line \<open>ag-2\<close> to line
  \<open>ag-3\<close>, the first check of \<open>replaceWordInline\<close> fails before the fourth, and the
  error thrown is that of a word cursor on two lines.
\<close>

theorem replaceCurrentWordInlineUnsafe_cursor_mismatch_counterexample:
  "validateLineCursor
       (blocks (one_line ''teh cat''
                  \<lparr>start = at_offset ''ag-2'' 0 None, end' = at_offset ''ag-3'' 2 None\<rparr>))
       (as_selection (selected_line
          (one_line ''teh cat''
             \<lparr>start = at_offset ''ag-2'' 0 None, end' = at_offset ''ag-3'' 2 None\<rparr>)
          (span_of ''ag-1'' 1 1 None)))
     = Inr True
   \<and> extractWord ''teh cat'' 1 = Some \<lparr>left = 0, right = 3, word = ''teh''\<rparr>
   \<and> key (end' (cursor (one_line ''teh cat''
          \<lparr>start = at_offset ''ag-2'' 0 None, end' = at_offset ''ag-3'' 2 None\<rparr>)))
       \<noteq> key (start (span_of ''ag-1'' 1 1 None))
   \<and> key (start (cursor (one_line ''teh cat''
          \<lparr>start = at_offset ''ag-2'' 0 None, end' = at_offset ''ag-3'' 2 None\<rparr>)))
       \<noteq> key (start (span_of ''ag-1'' 1 1 None))
   \<and> replaceCurrentWordInlineUnsafe (span_of ''ag-1'' 1 1 None) ''teh'' ''the''
       (one_line ''teh cat''
          \<lparr>start = at_offset ''ag-2'' 0 None, end' = at_offset ''ag-3'' 2 None\<rparr>)
     = (Inl InvalidWordCursor,
        one_line ''teh cat''
          \<lparr>start = at_offset ''ag-2'' 0 None, end' = at_offset ''ag-3'' 2 None\<rparr>)"
proof -
  have e: "extractWord ''teh cat'' 1 = Some \<lparr>left = 0, right = 3, word = ''teh''\<rparr>"
    by code_simp
  show ?thesis
    by (simp add: e one_line_valid replaceCurrentWordInlineUnsafe_def Let_def
          selected_line_def offsetToWordCursor_def deepClone_def replaceWordInline_def
          validateLineCursor_def selection_range_test_def as_selection_def example_defs)
qed

end
